theory Spec2Isabelle
  imports Complex_Main "HOL-Library.Sublist"
begin

section \<open>Python values and exceptions\<close>

text \<open>
  The program is \<^verbatim>\<open>src/app/app.py\<close>. A Python \<^verbatim>\<open>str\<close> is modelled as a
  \<^typ>\<open>string\<close> in which every \<^typ>\<open>char\<close> is one code point; the model therefore covers
  the strings whose code points are below 256 (Latin-1), which includes the micro sign
  of the header variant \<^verbatim>\<open>ng/\<mu>l\<close>. In that range the only characters that the regular
  expression class \<^verbatim>\<open>\d\<close> and \<^verbatim>\<open>float()\<close> accept as decimal digits are
  \<^verbatim>\<open>0\<close> to \<^verbatim>\<open>9\<close>.

  Every exception the modelled code can raise is a value of \<open>exn\<close>; a computation that
  may raise returns \<open>exn + 'a\<close>, with \<open>Inl\<close> for the exception.
\<close>

datatype exn = ValueError | IndexError | KeyError | AttributeError | InvalidIndexError

text \<open>
  A Python \<^verbatim>\<open>float\<close>. \<open>Finite q\<close> stands for the double that \<^verbatim>\<open>float()\<close>
  returns for a decimal literal of exact value \<open>q\<close> (the correctly rounded double, which is
  an infinity when \<open>q\<close> is beyond the range of doubles); the rounding itself is not
  modelled. Two cells of the model are equal when they denote the same value.
\<close>

datatype pyfloat = Finite rat | PosInf | NegInf | NaN

datatype cell = CStr string | CFloat pyfloat | CInt int | CNone

definition raise_bind :: "exn + 'a \<Rightarrow> ('a \<Rightarrow> exn + 'b) \<Rightarrow> exn + 'b" where
  "raise_bind m f = (case m of Inl e \<Rightarrow> Inl e | Inr x \<Rightarrow> f x)"

text \<open>Python's \<^verbatim>\<open>xs[i]\<close> for a non-negative index: out of range raises IndexError.\<close>

definition py_index :: "'a list \<Rightarrow> nat \<Rightarrow> exn + 'a" where
  "py_index xs i = (if i < length xs then Inr (xs ! i) else Inl IndexError)"

section \<open>String operations of the standard library\<close>

definition isdigit :: "char \<Rightarrow> bool" where
  "isdigit c = (c \<in> set ''0123456789'')"

definition digit_val :: "char \<Rightarrow> nat" where
  "digit_val c = of_char c - 48"

text \<open>\<^verbatim>\<open>s.count(c)\<close> and \<^verbatim>\<open>s.replace(a, b)\<close> for one-character arguments.\<close>

definition str_count :: "string \<Rightarrow> char \<Rightarrow> nat" where
  "str_count s c = length (filter (\<lambda>x. x = c) s)"

definition str_replace :: "string \<Rightarrow> char \<Rightarrow> char \<Rightarrow> string" where
  "str_replace s a b = map (\<lambda>x. if x = a then b else x) s"

text \<open>
  \<^verbatim>\<open>s.split(c)\<close> for a one-character separator: one part more than there are
  separators, empty parts kept.
\<close>

fun str_split :: "string \<Rightarrow> char \<Rightarrow> string list" where
  "str_split [] c = [[]]"
| "str_split (x # xs) c =
     (if x = c then [] # str_split xs c
      else (case str_split xs c of [] \<Rightarrow> [[x]] | p # ps \<Rightarrow> (x # p) # ps))"

text \<open>\<^verbatim>\<open>s.startswith(p)\<close> is \<^const>\<open>prefix\<close>; \<^verbatim>\<open>v in s\<close> on strings is containment
  of \<open>v\<close> as a contiguous substring of \<open>s\<close>.\<close>

fun str_contains :: "string \<Rightarrow> string \<Rightarrow> bool" where
  "str_contains [] v = (v = [])"
| "str_contains (x # xs) v = (if prefix v (x # xs) then True else str_contains xs v)"

text \<open>
  \<^verbatim>\<open>re.match(r'^\d+[,\.]\d+', value)\<close>: one or more digits, one comma or period, one
  or more digits, at the start of the string; what follows is not looked at. The first
  \<^verbatim>\<open>\d+\<close> can only end where the digits end, since the next character must be a
  separator.
\<close>

definition re_match_number :: "string \<Rightarrow> bool" where
  "re_match_number s =
     (case dropWhile isdigit s of
        c # d # _ \<Rightarrow> takeWhile isdigit s \<noteq> [] \<and> (c = CHR '','' \<or> c = CHR ''.'') \<and> isdigit d
      | _ \<Rightarrow> False)"

section \<open>The built-in \<^verbatim>\<open>float()\<close> on strings\<close>

text \<open>
  CPython's \<^verbatim>\<open>float(str)\<close>: non-ASCII white space becomes a blank and any other
  non-ASCII character that is not a decimal digit makes the string invalid; white space
  is stripped at both ends; underscores are allowed between digits only; what remains
  must be, in full, \<^verbatim>\<open>[sign] (inf | infinity | nan)\<close> in any letter case or
  \<^verbatim>\<open>[sign] (digits [. [digits]] | . digits) [(e|E) [sign] digits]\<close>. Any other string
  raises ValueError; no other exception is raised (a literal too large gives an infinity).
\<close>

definition py_isspace :: "char \<Rightarrow> bool" where
  "py_isspace c = (c \<in> set [CHR 0x09, CHR 0x0A, CHR 0x0B, CHR 0x0C, CHR 0x0D, CHR '' ''])"

fun to_ascii :: "string \<Rightarrow> string" where
  "to_ascii [] = []"
| "to_ascii (c # cs) =
     (if (of_char c :: nat) < 127 then c # to_ascii cs
      else if c \<in> set [CHR 0x85, CHR 0xA0] then CHR '' '' # to_ascii cs
      else ''?'')"

fun underscores_ok :: "char \<Rightarrow> string \<Rightarrow> bool" where
  "underscores_ok prev [] = (prev \<noteq> CHR ''_'')"
| "underscores_ok prev (c # cs) =
     (if c = CHR ''_'' then isdigit prev \<and> underscores_ok c cs
      else if prev = CHR ''_'' then isdigit c \<and> underscores_ok c cs
      else underscores_ok c cs)"

definition ascii_lower :: "char \<Rightarrow> char" where
  "ascii_lower c =
     (if 65 \<le> (of_char c :: nat) \<and> (of_char c :: nat) \<le> 90 then char_of (of_char c + (32::nat)) else c)"

definition digits_val :: "string \<Rightarrow> nat" where
  "digits_val ds = foldl (\<lambda>n c. 10 * n + digit_val c) 0 ds"

text \<open>The exponent part: absent, or \<^verbatim>\<open>e\<close>, an optional sign and at least one digit.
  The result is the exponent and the text after it.\<close>

definition parse_exponent :: "string \<Rightarrow> int \<times> string" where
  "parse_exponent s =
     (case s of
        [] \<Rightarrow> (0, s)
      | e # r \<Rightarrow>
          if e = CHR ''e'' \<or> e = CHR ''E'' then
            (let neg = (case r of [] \<Rightarrow> False | g # _ \<Rightarrow> g = CHR ''-'');
                 r' = (case r of [] \<Rightarrow> r | g # t \<Rightarrow> if g = CHR ''-'' \<or> g = CHR ''+'' then t else r);
                 ds = takeWhile isdigit r'
             in if ds = [] then (0, s)
                else ((if neg then - int (digits_val ds) else int (digits_val ds)),
                      dropWhile isdigit r'))
          else (0, s))"

definition scale10 :: "rat \<Rightarrow> int \<Rightarrow> rat" where
  "scale10 q e = (if 0 \<le> e then q * 10 ^ nat e else q / 10 ^ nat (- e))"

text \<open>An unsigned decimal literal, consumed in full, or ValueError.\<close>

definition parse_decimal :: "string \<Rightarrow> exn + rat" where
  "parse_decimal s =
     (let ip = takeWhile isdigit s;
          r1 = dropWhile isdigit s;
          fp = (case r1 of [] \<Rightarrow> [] | c # t \<Rightarrow> if c = CHR ''.'' then takeWhile isdigit t else []);
          r2 = (case r1 of [] \<Rightarrow> [] | c # t \<Rightarrow> if c = CHR ''.'' then dropWhile isdigit t else r1)
      in if ip = [] \<and> fp = [] then Inl ValueError
         else (case parse_exponent r2 of
                 (e, rest) \<Rightarrow>
                   if rest = [] then
                     Inr (scale10 (of_nat (digits_val (ip @ fp))) (e - int (length fp)))
                   else Inl ValueError))"

definition parse_unsigned :: "bool \<Rightarrow> string \<Rightarrow> exn + pyfloat" where
  "parse_unsigned neg s =
     (if map ascii_lower s \<in> set [''inf'', ''infinity''] then Inr (if neg then NegInf else PosInf)
      else if map ascii_lower s = ''nan'' then Inr NaN
      else raise_bind (parse_decimal s) (\<lambda>q. Inr (Finite (if neg then - q else q))))"

definition py_float :: "string \<Rightarrow> exn + pyfloat" where
  "py_float s =
     (let a = (if list_all (\<lambda>c. (of_char c :: nat) < 128) s then s else to_ascii s);
          b = dropWhile py_isspace a;
          t = rev (dropWhile py_isspace (rev b))
      in if t = [] then Inl ValueError
         else if underscores_ok (CHR 0x00) t then
           (let u = filter (\<lambda>c. c \<noteq> CHR ''_'') t
            in case u of
                 [] \<Rightarrow> Inl ValueError
               | g # r \<Rightarrow>
                   if g = CHR ''-'' then parse_unsigned True r
                   else if g = CHR ''+'' then parse_unsigned False r
                   else parse_unsigned False u)
         else Inl ValueError)"

section \<open>The numeric normalizer: \<^verbatim>\<open>convert_swedish_number\<close>\<close>

text \<open>\<^verbatim>\<open>try: return float(text) except ValueError: return fallback\<close>: only ValueError
  is caught.\<close>

definition try_float :: "string \<Rightarrow> string \<Rightarrow> exn + cell" where
  "try_float text fallback =
     (case py_float text of
        Inr f \<Rightarrow> Inr (CFloat f)
      | Inl e \<Rightarrow> if e = ValueError then Inr (CStr fallback) else Inl e)"

text \<open>
  In the branch for one comma and one period the source rebinds the variable
  \<^verbatim>\<open>value\<close> (to the text with the comma replaced, then to the text without the middle
  part), and the handler returns \<^verbatim>\<open>value\<close> as it then stands: \<open>value1\<close> and
  \<open>value2\<close> below. \<^verbatim>\<open>len(parts) == 3 and len(parts[1]) == 1\<close> is evaluated left to
  right, the index only when the length is 3.
\<close>

definition convert_swedish_number :: "cell \<Rightarrow> exn + cell" where
  "convert_swedish_number v =
     (case v of
        CStr s \<Rightarrow>
          if re_match_number s then
            (let comma_count = str_count s (CHR '','');
                 dot_count = str_count s (CHR ''.'')
             in if comma_count = 1 \<and> dot_count = 0 then
                  try_float (str_replace s (CHR '','') (CHR ''.'')) s
                else if comma_count = 1 \<and> dot_count = 1 then
                  (let value1 = str_replace s (CHR '','') (CHR ''.'');
                       parts = str_split value1 (CHR ''.'')
                   in raise_bind
                        (if length parts = 3
                         then raise_bind (py_index parts 1) (\<lambda>p. Inr (length p = 1))
                         else Inr False)
                        (\<lambda>middle_is_one.
                           raise_bind
                             (if middle_is_one
                              then raise_bind (py_index parts 0) (\<lambda>p0.
                                   raise_bind (py_index parts 2) (\<lambda>p2.
                                   Inr (p0 @ ''.'' @ p2)))
                              else Inr value1)
                             (\<lambda>value2. try_float value2 value2)))
                else Inr (CStr s))
          else Inr (CStr s)
      | _ \<Rightarrow> Inr v)"


section \<open>Data frames\<close>

text \<open>
  A pandas \<^verbatim>\<open>DataFrame\<close> as the program uses it: the column labels in order (they
  need not be distinct) and the rows in order, each row the cells under the labels by
  position. The row index is not modelled: every frame the program handles has the
  default index, and \<^verbatim>\<open>pd.concat\<close> is called with \<^verbatim>\<open>ignore_index=True\<close>.
  The missing-value marker of pandas is the float NaN.
\<close>

record dataframe =
  columns :: "string list"
  rows :: "cell list list"

definition missing :: cell where
  "missing = CFloat NaN"

text \<open>\<^verbatim>\<open>df.empty\<close>: true when either axis has length 0.\<close>

definition df_empty :: "dataframe \<Rightarrow> bool" where
  "df_empty df = (columns df = [] \<or> rows df = [])"

text \<open>The cell of a row under a label (the first column of that name), missing when the
  row has no such cell.\<close>

definition row_get :: "string list \<Rightarrow> cell list \<Rightarrow> string \<Rightarrow> cell" where
  "row_get labels row h = (case map_of (zip labels row) h of Some v \<Rightarrow> v | None \<Rightarrow> missing)"

definition reindex_row :: "string list \<Rightarrow> string list \<Rightarrow> cell list \<Rightarrow> cell list" where
  "reindex_row old new row = map (row_get old row) new"

subsection \<open>Element types of columns\<close>

text \<open>
  Every column of a frame has an element type (\<^verbatim>\<open>dtype\<close>). The frames of the program
  are built by pandas from their cells, and the model gives a column the element type that
  pandas infers from its cells: \<^verbatim>\<open>int64\<close> for integers only, \<^verbatim>\<open>float64\<close> for other
  columns of numbers (a missing value in such a column is NaN), \<^verbatim>\<open>object\<close> for a column
  with a string, with nothing but None, or without cells. With string inference (the
  pandas option \<^verbatim>\<open>future.infer_string\<close>, off in pandas 1 and 2 and on from pandas 3) a
  column of strings and missing values only has the element type \<^verbatim>\<open>str\<close> and not
  \<^verbatim>\<open>object\<close>.
\<close>

datatype dtype = Object | StrDtype | Int64 | Float64

definition is_str :: "cell \<Rightarrow> bool" where
  "is_str c = (case c of CStr s \<Rightarrow> True | _ \<Rightarrow> False)"

definition is_int :: "cell \<Rightarrow> bool" where
  "is_int c = (case c of CInt n \<Rightarrow> True | _ \<Rightarrow> False)"

definition is_none :: "cell \<Rightarrow> bool" where
  "is_none c = (case c of CNone \<Rightarrow> True | _ \<Rightarrow> False)"

definition is_missing :: "cell \<Rightarrow> bool" where
  "is_missing c = (case c of CNone \<Rightarrow> True | CFloat f \<Rightarrow> f = NaN | _ \<Rightarrow> False)"

text \<open>The numeric element type of a column, if it has one.\<close>

definition infer_numeric :: "cell list \<Rightarrow> dtype option" where
  "infer_numeric cells =
     (if list_ex is_str cells then None
      else if list_all is_none cells then None
      else if list_all is_int cells then Some Int64
      else Some Float64)"

definition infer_dtype :: "bool \<Rightarrow> cell list \<Rightarrow> dtype" where
  "infer_dtype infer_string cells =
     (case infer_numeric cells of
        Some d \<Rightarrow> d
      | None \<Rightarrow>
          if infer_string \<and> list_ex is_str cells \<and> list_all (\<lambda>c. is_str c \<or> is_missing c) cells
          then StrDtype else Object)"

text \<open>A cell as it stands in a column of element type \<^verbatim>\<open>float64\<close>: an integer is the
  float of the same value and None is NaN.\<close>

definition to_float :: "cell \<Rightarrow> cell" where
  "to_float c = (case c of CInt n \<Rightarrow> CFloat (Finite (of_int n)) | CNone \<Rightarrow> CFloat NaN | _ \<Rightarrow> c)"

subsection \<open>Concatenation\<close>

text \<open>
  \<^verbatim>\<open>pd.concat([a, b], ignore_index=True)\<close>, that is, along the rows with the default
  outer join and no sorting of the labels (pandas 1.0 and later). When both frames have
  the same labels the rows are stacked. Otherwise the labels of the result are those of
  \<open>a\<close> followed by the labels of \<open>b\<close> that \<open>a\<close> lacks, and every row is laid out under
  them by label, with the missing marker where its frame has no such column; pandas can
  do this only for frames whose labels are distinct and raises InvalidIndexError
  otherwise. A column of the result has the common element type of its parts: it is
  \<^verbatim>\<open>float64\<close>, and its integers become floats, when the parts are numeric and one of
  them is \<^verbatim>\<open>float64\<close> or is absent and padded with NaN (\<open>piece\<close> is the part of a
  frame under a label, \<open>float_column\<close> this test). In the branch for equal labels the
  rows are stacked as they are.
\<close>

definition piece :: "dataframe \<Rightarrow> string \<Rightarrow> cell list option" where
  "piece df h =
     (if h \<in> set (columns df) then Some (map (\<lambda>r. row_get (columns df) r h) (rows df)) else None)"

definition float_column :: "dataframe \<Rightarrow> dataframe \<Rightarrow> string \<Rightarrow> bool" where
  "float_column a b h =
     (case piece a h of
        None \<Rightarrow> (case piece b h of None \<Rightarrow> False | Some cb \<Rightarrow> infer_numeric cb \<noteq> None)
      | Some ca \<Rightarrow>
          (case piece b h of
             None \<Rightarrow> infer_numeric ca \<noteq> None
           | Some cb \<Rightarrow>
               (case infer_numeric ca of
                  None \<Rightarrow> False
                | Some da \<Rightarrow>
                    (case infer_numeric cb of
                       None \<Rightarrow> False
                     | Some db \<Rightarrow> da = Float64 \<or> db = Float64))))"

definition upcast_row :: "bool list \<Rightarrow> cell list \<Rightarrow> cell list" where
  "upcast_row flags row = map (\<lambda>fc. if fst fc then to_float (snd fc) else snd fc) (zip flags row)"

definition pd_concat :: "dataframe \<Rightarrow> dataframe \<Rightarrow> exn + dataframe" where
  "pd_concat a b =
     (if columns a = columns b then
        Inr \<lparr>columns = columns a, rows = rows a @ rows b\<rparr>
      else if distinct (columns a) \<and> distinct (columns b) then
        (let labels = columns a @ filter (\<lambda>h. h \<notin> set (columns a)) (columns b);
             flags = map (float_column a b) labels
         in Inr \<lparr>columns = labels,
                 rows = map (upcast_row flags)
                          (map (reindex_row (columns a) labels) (rows a) @
                           map (reindex_row (columns b) labels) (rows b))\<rparr>)
      else Inl InvalidIndexError)"

section \<open>The fragment reconciler: \<^verbatim>\<open>merge_fragmented_tables\<close>\<close>

text \<open>
  The state of the loop is the pair of \<^verbatim>\<open>merged\<close> and \<^verbatim>\<open>current_table\<close>
  (\<open>None\<close> for Python's None). \<open>merge_step\<close> is one iteration of the loop body,
  \<open>merge_loop\<close> the loop, which an exception leaves at once.
\<close>

type_synonym merge_state = "dataframe list \<times> dataframe option"

definition merge_step :: "merge_state \<Rightarrow> dataframe \<Rightarrow> exn + merge_state" where
  "merge_step st table =
     (case st of
        (merged, current_table) \<Rightarrow>
          if df_empty table then Inr st
          else
            (case current_table of
               None \<Rightarrow> Inr (merged, Some table)
             | Some cur \<Rightarrow>
                 raise_bind
                   (if columns table = columns cur then Inr True
                    else raise_bind (py_index (columns table) 0)
                           (\<lambda>first. Inr (prefix ''Unnamed'' first)))
                   (\<lambda>is_continuation.
                      if is_continuation then
                        raise_bind (pd_concat cur table) (\<lambda>c. Inr (merged, Some c))
                      else Inr (merged @ [cur], Some table))))"

fun merge_loop :: "merge_state \<Rightarrow> dataframe list \<Rightarrow> exn + merge_state" where
  "merge_loop st [] = Inr st"
| "merge_loop st (table # tables) = raise_bind (merge_step st table) (\<lambda>st'. merge_loop st' tables)"

definition merge_fragmented_tables :: "dataframe list \<Rightarrow> exn + dataframe list" where
  "merge_fragmented_tables tables =
     (if length tables \<le> 1 then Inr tables
      else raise_bind (merge_loop ([], None) tables)
             (\<lambda>st. case st of
                     (merged, current_table) \<Rightarrow>
                       Inr (case current_table of None \<Rightarrow> merged | Some cur \<Rightarrow> merged @ [cur])))"

definition total_rows :: "dataframe list \<Rightarrow> nat" where
  "total_rows tables = sum_list (map (\<lambda>t. length (rows t)) tables)"

section \<open>The summary extraction: \<^verbatim>\<open>fix_swedish_numbers\<close> and \<^verbatim>\<open>extract_summary_data\<close>\<close>

fun map_exn :: "('a \<Rightarrow> exn + 'b) \<Rightarrow> 'a list \<Rightarrow> exn + 'b list" where
  "map_exn f [] = Inr []"
| "map_exn f (x # xs) = raise_bind (f x) (\<lambda>y. raise_bind (map_exn f xs) (\<lambda>ys. Inr (y # ys)))"

text \<open>
  \<^verbatim>\<open>fix_swedish_numbers\<close> visits the columns by label; \<^verbatim>\<open>df[col]\<close> for a label that
  occurs more than once is a frame, which has no attribute \<^verbatim>\<open>dtype\<close>. A column is
  processed only when its element type is \<^verbatim>\<open>object\<close>. Then \<^verbatim>\<open>Series.apply\<close> calls
  the lambda on every cell, which converts the strings and leaves other cells alone, and
  infers the element type of the results anew: when they are numbers, not all of them
  integers, the column becomes \<^verbatim>\<open>float64\<close>, an integer among them a float and None
  NaN. The first argument is the string inference of pandas, on which the element type of
  a column of strings depends.
\<close>

definition fix_cell :: "cell \<Rightarrow> exn + cell" where
  "fix_cell x = (case x of CStr s \<Rightarrow> convert_swedish_number x | _ \<Rightarrow> Inr x)"

definition apply_infer :: "cell list \<Rightarrow> cell list" where
  "apply_infer results = (if infer_numeric results = Some Float64 then map to_float results else results)"

definition column_cells :: "dataframe \<Rightarrow> nat \<Rightarrow> cell list" where
  "column_cells df j = map (\<lambda>r. if j < length r then r ! j else missing) (rows df)"

definition fix_column :: "bool \<Rightarrow> cell list \<Rightarrow> exn + cell list" where
  "fix_column infer_string cells =
     (if infer_dtype infer_string cells = Object then
        raise_bind (map_exn fix_cell cells) (\<lambda>results. Inr (apply_infer results))
      else Inr cells)"

definition fix_swedish_numbers :: "bool \<Rightarrow> dataframe \<Rightarrow> exn + dataframe" where
  "fix_swedish_numbers infer_string df =
     (if distinct (columns df) then
        raise_bind
          (map_exn (\<lambda>j. fix_column infer_string (column_cells df j)) [0..<length (columns df)])
          (\<lambda>cols. Inr (df\<lparr>rows := map (\<lambda>i. map (\<lambda>col. col ! i) cols) [0..<length (rows df)]\<rparr>))
      else Inl AttributeError)"

definition sample_cols :: "string list" where
  "sample_cols = [''Sample'', ''sample'', ''Sample Name'', ''sample name'']"

definition ngul_cols :: "string list" where
  "ngul_cols = [''ng/ul'', ''ng/uL'', [CHR ''n'', CHR ''g'', CHR ''/'', CHR 0xB5, CHR ''l''],
                ''Concentration'', ''concentration'']"

definition ratio_cols :: "string list" where
  "ratio_cols = [''260/280'', ''260 / 280'', ''A260/A280'', ''Ratio'']"

text \<open>The loop \<^verbatim>\<open>for col in table.columns: if any(s in str(col) for s in variants):
  found = col; break\<close>, with \<open>None\<close> when the loop ends without a match.\<close>

fun find_col :: "string list \<Rightarrow> string list \<Rightarrow> string option" where
  "find_col variants [] = None"
| "find_col variants (col # cols) =
     (if list_ex (\<lambda>s. str_contains col s) variants then Some col else find_col variants cols)"

text \<open>
  \<^verbatim>\<open>table[col]\<close> is the column of that label when the label occurs once. When it occurs
  several times it is a frame of several columns, and assigning such a frame to one new
  column of \<^verbatim>\<open>extracted\<close> raises ValueError.
\<close>

definition get_column :: "dataframe \<Rightarrow> string \<Rightarrow> exn + cell list" where
  "get_column table col =
     (case filter (\<lambda>i. columns table ! i = col) [0..<length (columns table)] of
        [] \<Rightarrow> Inl KeyError
      | [i] \<Rightarrow> Inr (map (\<lambda>r. if i < length r then r ! i else missing) (rows table))
      | _ \<Rightarrow> Inl ValueError)"

text \<open>\<^verbatim>\<open>extracted[key] = series\<close> for a label that \<^verbatim>\<open>extracted\<close> does not have yet: the
  first column gives the frame its rows, a later one is added to the rows there are.\<close>

definition set_new_column :: "dataframe \<Rightarrow> string \<Rightarrow> cell list \<Rightarrow> dataframe" where
  "set_new_column df key vals =
     \<lparr>columns = columns df @ [key],
      rows = (if columns df = [] then map (\<lambda>v. [v]) vals
              else map (\<lambda>rv. fst rv @ [snd rv]) (zip (rows df) vals))\<rparr>"

text \<open>\<^verbatim>\<open>if col: extracted[key] = table[col]\<close>: None and the empty string are false.\<close>

definition add_field :: "dataframe \<Rightarrow> string option \<Rightarrow> string \<Rightarrow> dataframe \<Rightarrow> exn + dataframe" where
  "add_field table col key extracted =
     (case col of
        None \<Rightarrow> Inr extracted
      | Some c \<Rightarrow>
          if c = [] then Inr extracted
          else raise_bind (get_column table c) (\<lambda>series. Inr (set_new_column extracted key series)))"

text \<open>\<^verbatim>\<open>df.insert(0, key, value)\<close> with a scalar value: ValueError when the label
  exists already.\<close>

definition df_insert_first :: "dataframe \<Rightarrow> string \<Rightarrow> cell \<Rightarrow> exn + dataframe" where
  "df_insert_first df key v =
     (if key \<in> set (columns df) then Inl ValueError
      else Inr \<lparr>columns = key # columns df, rows = map (\<lambda>r. v # r) (rows df)\<rparr>)"

text \<open>\<^verbatim>\<open>extract_summary_data(table, source_file)\<close>; the first argument of the model is
  the string inference of pandas, which decides the element type of the columns of
  \<^verbatim>\<open>extracted\<close> that hold strings.\<close>

definition extract_summary_data :: "bool \<Rightarrow> dataframe \<Rightarrow> string \<Rightarrow> exn + dataframe option" where
  "extract_summary_data infer_string table source_file =
     (let extracted = \<lparr>columns = [], rows = []\<rparr>;
          sample_col = find_col sample_cols (columns table);
          ngul_col = find_col ngul_cols (columns table);
          ratio_col = find_col ratio_cols (columns table)
      in raise_bind (add_field table sample_col ''Sample'' extracted) (\<lambda>e1.
         raise_bind (add_field table ngul_col ''ng/ul'' e1) (\<lambda>e2.
         raise_bind (add_field table ratio_col ''260/280'' e2) (\<lambda>e3.
         raise_bind
           (if df_empty e3 then Inr e3
            else raise_bind (df_insert_first e3 ''Source File'' (CStr source_file))
                   (fix_swedish_numbers infer_string))
           (\<lambda>e4. Inr (if df_empty e4 then None else Some e4))))))"

section \<open>Notions used in the statements\<close>

text \<open>The tables a loop state holds: the finished ones, then the open accumulator.\<close>

fun state_tables :: "merge_state \<Rightarrow> dataframe list" where
  "state_tables (merged, None) = merged"
| "state_tables (merged, Some cur) = merged @ [cur]"

text \<open>A field's variant list resolves to a label that occurs once among the table's labels
  (or to none at all).\<close>

definition resolved_once :: "dataframe \<Rightarrow> string list \<Rightarrow> bool" where
  "resolved_once table variants =
     (case find_col variants (columns table) of
        None \<Rightarrow> True
      | Some c \<Rightarrow> length (filter (\<lambda>h. h = c) (columns table)) = 1)"

text \<open>The labels of the summary for the fields that resolved, in the order of the source.\<close>

definition field_label :: "dataframe \<Rightarrow> string list \<Rightarrow> string \<Rightarrow> string list" where
  "field_label table variants key =
     (case find_col variants (columns table) of None \<Rightarrow> [] | Some c \<Rightarrow> [key])"

definition field_labels :: "dataframe \<Rightarrow> string list" where
  "field_labels table =
     field_label table sample_cols ''Sample'' @ field_label table ngul_cols ''ng/ul'' @
     field_label table ratio_cols ''260/280''"

text \<open>The frame \<^verbatim>\<open>extracted\<close> while it is built: no column and no row yet, or as many
  rows as the table.\<close>

definition shaped :: "dataframe \<Rightarrow> dataframe \<Rightarrow> bool" where
  "shaped table e = (if columns e = [] then rows e = [] else length (rows e) = length (rows table))"

section \<open>Facts about the standard-library model\<close>

lemma raise_bind_simps [simp]:
  "raise_bind (Inl e) f = Inl e" "raise_bind (Inr x) f = f x"
  by (simp_all add: raise_bind_def)

lemma parse_exponent_nil: "parse_exponent [] = (0, [])"
  by (simp add: parse_exponent_def)

lemma parse_decimal_error: "parse_decimal s = Inl e \<Longrightarrow> e = ValueError"
  by (auto simp: parse_decimal_def Let_def split: if_splits prod.splits)

lemma parse_unsigned_error: "parse_unsigned neg s = Inl e \<Longrightarrow> e = ValueError"
  by (auto simp: parse_unsigned_def raise_bind_def split: if_splits sum.splits
      dest: parse_decimal_error)

text \<open>ValueError is the only exception of \<^verbatim>\<open>float()\<close> on a string.\<close>

lemma py_float_error: "py_float s = Inl e \<Longrightarrow> e = ValueError"
  by (auto simp: py_float_def Let_def split: if_splits list.splits dest: parse_unsigned_error)

lemma try_float_cases:
  "try_float text fallback = Inr (CStr fallback) \<or> (\<exists>f. try_float text fallback = Inr (CFloat f))"
  by (auto simp: try_float_def split: sum.splits dest: py_float_error)

lemma str_split_parts_all: "\<forall>p\<in>set (str_split s c). set p \<subseteq> set s"
  by (induction s) (auto split: list.splits)

lemma str_split_parts: "p \<in> set (str_split s c) \<Longrightarrow> set p \<subseteq> set s"
  using str_split_parts_all by blast

lemma str_count_zero: "str_count s c = 0 \<longleftrightarrow> c \<notin> set s"
  by (auto simp: str_count_def filter_empty_conv)

lemma str_replace_no_comma: "CHR '','' \<notin> set (str_replace s (CHR '','') (CHR ''.''))"
  by (auto simp: str_replace_def)

lemma str_contains_sublist: "str_contains s v \<longleftrightarrow> sublist v s"
  by (induction s) (auto simp: sublist_Cons_right)

section \<open>The numeric normalizer\<close>

lemma py_float_4_141: "py_float ''4.141'' = Inr (Finite (4141 / 1000))"
proof -
  have d: "digits_val ''4141'' = 4141"
    by (simp add: digits_val_def digit_val_def)
  have p: "parse_decimal ''4.141'' = Inr (4141 / 1000)"
    by (simp add: parse_decimal_def isdigit_def d parse_exponent_nil scale10_def)
  show ?thesis
    by (simp add: py_float_def py_isspace_def isdigit_def parse_unsigned_def ascii_lower_def p)
qed

lemma py_float_173_71: "py_float ''173.71'' = Inr (Finite (17371 / 100))"
proof -
  have d: "digits_val ''17371'' = 17371"
    by (simp add: digits_val_def digit_val_def)
  have p: "parse_decimal ''173.71'' = Inr (17371 / 100)"
    by (simp add: parse_decimal_def isdigit_def d parse_exponent_nil scale10_def)
  show ?thesis
    by (simp add: py_float_def py_isspace_def isdigit_def parse_unsigned_def ascii_lower_def p)
qed

lemma py_float_1_234_56: "py_float ''1.234.56'' = Inl ValueError"
proof -
  have e: "parse_exponent ''.56'' = (0, ''.56'')"
    by (simp add: parse_exponent_def)
  have p: "parse_decimal ''1.234.56'' = Inl ValueError"
    by (simp add: parse_decimal_def isdigit_def e)
  show ?thesis
    by (simp add: py_float_def py_isspace_def isdigit_def parse_unsigned_def ascii_lower_def p)
qed

lemma convert_4_141:
  "convert_swedish_number (CStr ''4,141'') = Inr (CFloat (Finite (4141 / 1000)))"
  by (simp add: convert_swedish_number_def re_match_number_def isdigit_def str_count_def
      str_replace_def try_float_def py_float_4_141)

lemma convert_173_0_71:
  "convert_swedish_number (CStr ''173,0.71'') = Inr (CFloat (Finite (17371 / 100)))"
  by (simp add: convert_swedish_number_def re_match_number_def isdigit_def str_count_def
      str_replace_def try_float_def py_float_173_71 py_index_def)

lemma convert_two_periods:
  "convert_swedish_number (CStr ''1.234.567'') = Inr (CStr ''1.234.567'')"
  by (simp add: convert_swedish_number_def re_match_number_def isdigit_def str_count_def)

lemma convert_plain_text: "convert_swedish_number (CStr ''abc'') = Inr (CStr ''abc'')"
  by (simp add: convert_swedish_number_def re_match_number_def isdigit_def)

lemma convert_no_comma:
  "CHR '','' \<notin> set s \<Longrightarrow> convert_swedish_number (CStr s) = Inr (CStr s)"
  using str_count_zero[of s "CHR '',''"]
  by (simp add: convert_swedish_number_def Let_def)

text \<open>
  What the normalizer returns for a string: the string itself, a float, or a string
  without a comma (the rewritten text of the branch for one comma and one period).
\<close>

lemma convert_str_cases:
  "convert_swedish_number (CStr s) = Inr (CStr s) \<or>
   (\<exists>f. convert_swedish_number (CStr s) = Inr (CFloat f)) \<or>
   (\<exists>t. convert_swedish_number (CStr s) = Inr (CStr t) \<and> CHR '','' \<notin> set t)"
proof -
  let ?v1 = "str_replace s (CHR '','') (CHR ''.'')"
  let ?parts = "str_split ?v1 (CHR ''.'')"
  have v1: "CHR '','' \<notin> set ?v1"
    by (rule str_replace_no_comma)
  have joined: "CHR '','' \<notin> set (?parts ! 0 @ ''.'' @ ?parts ! 2)" if "length ?parts = 3"
  proof -
    have "?parts ! 0 \<in> set ?parts" "?parts ! 2 \<in> set ?parts"
      using that by simp_all
    then have "set (?parts ! 0) \<subseteq> set ?v1" "set (?parts ! 2) \<subseteq> set ?v1"
      by (auto dest: str_split_parts)
    with v1 show ?thesis by auto
  qed
  show ?thesis
    using try_float_cases[of ?v1 s] try_float_cases[of ?v1 ?v1]
      try_float_cases[of "?parts ! 0 @ ''.'' @ ?parts ! 2" "?parts ! 0 @ ''.'' @ ?parts ! 2"]
      v1 joined
    by (auto simp: convert_swedish_number_def Let_def raise_bind_def py_index_def)
qed

text \<open>In the branch for one comma and no period a failed parse gives back the input.\<close>

lemma simple_case_fallback:
  assumes "re_match_number s" "str_count s (CHR '','') = 1" "str_count s (CHR ''.'') = 0"
    and "py_float (str_replace s (CHR '','') (CHR ''.'')) = Inl e"
  shows "convert_swedish_number (CStr s) = Inr (CStr s)"
  using assms py_float_error[OF assms(4)]
  by (simp add: convert_swedish_number_def try_float_def)

text \<open>
  Claim C1. The normalizer maps the test vectors of the specification as stated there:
  \<^verbatim>\<open>"4,141"\<close> to the number 4.141, \<^verbatim>\<open>"173,0.71"\<close> to the number 173.71,
  \<^verbatim>\<open>"1.234.567"\<close> and \<^verbatim>\<open>"abc"\<close> to themselves, and the integer 42 to itself.
\<close>

theorem normalize_cell_test_vectors:
  "convert_swedish_number (CStr ''4,141'') = Inr (CFloat (Finite (4141 / 1000))) \<and>
   convert_swedish_number (CStr ''173,0.71'') = Inr (CFloat (Finite (17371 / 100))) \<and>
   convert_swedish_number (CStr ''1.234.567'') = Inr (CStr ''1.234.567'') \<and>
   convert_swedish_number (CStr ''abc'') = Inr (CStr ''abc'') \<and>
   convert_swedish_number (CInt 42) = Inr (CInt 42)"
  by (simp add: convert_4_141 convert_173_0_71 convert_two_periods convert_plain_text)
    (simp add: convert_swedish_number_def)

text \<open>
  Claim C2. When a conversion is attempted and the parse fails, the original text should
  come back unchanged. In the branch for one comma and one period the handler returns the
  rebound variable instead: for the input \<^verbatim>\<open>"1,234.56"\<close> the parse of
  \<^verbatim>\<open>"1.234.56"\<close> fails and the text with the comma replaced is returned.
\<close>

theorem fallback_returns_rewritten_text:
  "convert_swedish_number (CStr ''1,234.56'') = Inr (CStr ''1.234.56'')"
  by (simp add: convert_swedish_number_def re_match_number_def isdigit_def str_count_def
      str_replace_def try_float_def py_float_1_234_56 py_index_def)

text \<open>
  Claim C4. The normalizer is idempotent: for every cell, it returns a value, and applied
  to that value it returns the same value again.
\<close>

theorem normalize_cell_idempotent:
  "\<exists>y. convert_swedish_number x = Inr y \<and> convert_swedish_number y = Inr y"
proof (cases x)
  case (CStr s)
  have f: "convert_swedish_number (CFloat f) = Inr (CFloat f)" for f
    by (simp add: convert_swedish_number_def)
  show ?thesis
    using convert_str_cases[of s] convert_no_comma f unfolding CStr
    by (elim disjE exE conjE) auto
qed (simp_all add: convert_swedish_number_def)

text \<open>
  Claim C9. On every string the normalizer returns, without raising, a float or a string:
  the parse is the only step that can fail and its ValueError is caught, and the index
  into the parts is taken only when there are three of them.
\<close>

theorem normalize_cell_total_on_strings:
  "\<exists>y. convert_swedish_number (CStr s) = Inr y \<and> ((\<exists>t. y = CStr t) \<or> (\<exists>f. y = CFloat f))"
  using convert_str_cases[of s] by auto

section \<open>The fragment reconciler\<close>

lemma total_rows_simps [simp]:
  "total_rows [] = 0" "total_rows (t # ts) = length (rows t) + total_rows ts"
  "total_rows (xs @ ys) = total_rows xs + total_rows ys"
  by (simp_all add: total_rows_def)

lemma merge_step_empty: "df_empty e \<Longrightarrow> merge_step st e = Inr st"
  by (simp add: merge_step_def split: prod.splits)

lemma merge_loop_filter:
  "merge_loop st (filter (\<lambda>t. \<not> df_empty t) ts) = merge_loop st ts"
  by (induction ts arbitrary: st) (simp_all add: merge_step_empty)

lemma pd_concat_rows:
  "pd_concat a b = Inr c \<Longrightarrow> length (rows c) = length (rows a) + length (rows b)"
  by (auto simp: pd_concat_def Let_def split: if_splits)

lemma pd_concat_nonempty:
  "pd_concat a b = Inr c \<Longrightarrow> \<not> df_empty a \<Longrightarrow> \<not> df_empty c"
  by (auto simp: pd_concat_def Let_def df_empty_def split: if_splits)

lemma pd_concat_distinct:
  "distinct (columns a) \<Longrightarrow> distinct (columns b) \<Longrightarrow>
   \<exists>c. pd_concat a b = Inr c \<and> distinct (columns c)"
  by (auto simp: pd_concat_def Let_def)

text \<open>The labels of a concatenation: those of the first frame, then the new labels of the
  second.\<close>

lemma pd_concat_labels:
  "pd_concat a b = Inr r \<Longrightarrow>
   columns r = columns a @ filter (\<lambda>h. h \<notin> set (columns a)) (columns b)"
proof -
  assume r: "pd_concat a b = Inr r"
  show ?thesis
  proof (cases "columns a = columns b")
    case True
    then have "filter (\<lambda>h. h \<notin> set (columns a)) (columns b) = []"
      by simp
    with True r show ?thesis
      by (auto simp: pd_concat_def)
  next
    case False
    with r show ?thesis
      by (auto simp: pd_concat_def Let_def split: if_splits)
  qed
qed

text \<open>A column of integers that is padded becomes a column of floats.\<close>

lemma pd_concat_upcasts_padded_integers:
  "pd_concat \<lparr>columns = [''A''], rows = [[CInt 1]]\<rparr> \<lparr>columns = [''B''], rows = [[CInt 2]]\<rparr> =
   Inr \<lparr>columns = [''A'', ''B''],
        rows = [[CFloat (Finite 1), CFloat NaN], [CFloat NaN, CFloat (Finite 2)]]\<rparr>"
  by (simp add: pd_concat_def float_column_def piece_def row_get_def infer_numeric_def is_str_def
      is_none_def is_int_def upcast_row_def reindex_row_def missing_def to_float_def)

text \<open>One iteration adds the rows of a fragment that is not empty, and no others.\<close>

lemma merge_step_rows:
  assumes "merge_step st t = Inr st'"
  shows "total_rows (state_tables st') =
         total_rows (state_tables st) + (if df_empty t then 0 else length (rows t))"
proof (cases st)
  case (Pair merged cur)
  show ?thesis
  proof (cases "df_empty t")
    case True
    with assms show ?thesis by (simp add: merge_step_empty)
  next
    case False
    show ?thesis
    proof (cases cur)
      case None
      with assms False Pair show ?thesis by (auto simp: merge_step_def)
    next
      case (Some c)
      with assms False Pair show ?thesis
        by (auto simp: merge_step_def raise_bind_def py_index_def
            split: if_splits sum.splits dest: pd_concat_rows)
    qed
  qed
qed

lemma merge_loop_rows:
  "merge_loop st ts = Inr st' \<Longrightarrow>
   total_rows (state_tables st') =
   total_rows (state_tables st) + total_rows (filter (\<lambda>t. \<not> df_empty t) ts)"
proof (induction ts arbitrary: st)
  case Nil
  then show ?case by simp
next
  case (Cons t ts)
  from Cons.prems obtain st1 where s1: "merge_step st t = Inr st1" and
    l: "merge_loop st1 ts = Inr st'"
    by (cases "merge_step st t") auto
  from merge_step_rows[OF s1] Cons.IH[OF l] show ?case by simp
qed

text \<open>No table of the state is empty, before and after an iteration.\<close>

lemma merge_step_nonempty:
  assumes "merge_step st t = Inr st'" "list_all (\<lambda>x. \<not> df_empty x) (state_tables st)"
  shows "list_all (\<lambda>x. \<not> df_empty x) (state_tables st')"
proof (cases st)
  case (Pair merged cur)
  show ?thesis
  proof (cases "df_empty t")
    case True
    with assms show ?thesis by (simp add: merge_step_empty)
  next
    case False
    show ?thesis
    proof (cases cur)
      case None
      with assms False Pair show ?thesis by (auto simp: merge_step_def)
    next
      case (Some c)
      with assms False Pair show ?thesis
        by (auto simp: merge_step_def raise_bind_def py_index_def
            split: if_splits sum.splits dest: pd_concat_nonempty)
    qed
  qed
qed

lemma merge_loop_nonempty:
  "merge_loop st ts = Inr st' \<Longrightarrow> list_all (\<lambda>x. \<not> df_empty x) (state_tables st) \<Longrightarrow>
   list_all (\<lambda>x. \<not> df_empty x) (state_tables st')"
proof (induction ts arbitrary: st)
  case Nil
  then show ?case by simp
next
  case (Cons t ts)
  from Cons.prems obtain st1 where s1: "merge_step st t = Inr st1" and
    l: "merge_loop st1 ts = Inr st'"
    by (cases "merge_step st t") auto
  from Cons.IH[OF l merge_step_nonempty[OF s1 Cons.prems(2)]] show ?case .
qed

text \<open>With two fragments or more the result is that of the loop.\<close>

lemma merge_long:
  "2 \<le> length ts \<Longrightarrow>
   merge_fragmented_tables ts = raise_bind (merge_loop ([], None) ts) (\<lambda>st. Inr (state_tables st))"
proof -
  have "(\<lambda>st. case st of (merged, current_table) \<Rightarrow>
           Inr (case current_table of None \<Rightarrow> merged | Some cur \<Rightarrow> merged @ [cur])) =
        (\<lambda>st. (Inr (state_tables st) :: exn + dataframe list))"
    by (auto simp: fun_eq_iff split: option.splits)
  then show "2 \<le> length ts \<Longrightarrow> ?thesis"
    by (simp add: merge_fragmented_tables_def)
qed

lemma merge_long_result:
  "2 \<le> length ts \<Longrightarrow> merge_fragmented_tables ts = Inr out \<Longrightarrow>
   \<exists>st. merge_loop ([], None) ts = Inr st \<and> out = state_tables st"
  by (cases "merge_loop ([], None) ts") (auto simp: merge_long)

text \<open>Fragments whose labels are distinct never make the concatenation raise.\<close>

lemma merge_step_distinct:
  assumes "distinct (columns t)" "list_all (\<lambda>x. distinct (columns x)) (state_tables st)"
  shows "\<exists>st'. merge_step st t = Inr st' \<and> list_all (\<lambda>x. distinct (columns x)) (state_tables st')"
proof (cases st)
  case (Pair merged cur)
  show ?thesis
  proof (cases "df_empty t")
    case True
    with assms show ?thesis by (simp add: merge_step_empty)
  next
    case False
    show ?thesis
    proof (cases cur)
      case None
      with assms False Pair show ?thesis by (auto simp: merge_step_def)
    next
      case (Some c)
      with assms Pair have dc: "distinct (columns c)" by simp
      from pd_concat_distinct[OF dc assms(1)] obtain r where
        r: "pd_concat c t = Inr r" "distinct (columns r)" by blast
      from False have "columns t \<noteq> []" by (simp add: df_empty_def)
      with assms False Pair Some r show ?thesis
        by (auto simp: merge_step_def py_index_def)
    qed
  qed
qed

lemma merge_loop_distinct:
  "list_all (\<lambda>x. distinct (columns x)) ts \<Longrightarrow>
   list_all (\<lambda>x. distinct (columns x)) (state_tables st) \<Longrightarrow>
   \<exists>st'. merge_loop st ts = Inr st'"
proof (induction ts arbitrary: st)
  case Nil
  then show ?case by simp
next
  case (Cons t ts)
  from Cons.prems have "distinct (columns t)" by simp
  from merge_step_distinct[OF this Cons.prems(2)] obtain st1 where
    s1: "merge_step st t = Inr st1" "list_all (\<lambda>x. distinct (columns x)) (state_tables st1)"
    by blast
  from Cons.prems have "list_all (\<lambda>x. distinct (columns x)) ts" by simp
  from Cons.IH[OF this s1(2)] s1(1) show ?case by simp
qed

text \<open>The example of the specification: three fragments, the second a continuation of the
  first, with an empty fragment between them, give two tables of two rows and one row.\<close>

lemma merge_three_fragments:
  "merge_fragmented_tables
     [\<lparr>columns = [''A'', ''B''], rows = [[CInt 1, CInt 2]]\<rparr>,
      \<lparr>columns = [''A'', ''B''], rows = []\<rparr>,
      \<lparr>columns = [''A'', ''B''], rows = [[CInt 3, CInt 4]]\<rparr>,
      \<lparr>columns = [''C'', ''D''], rows = [[CInt 5, CInt 6]]\<rparr>] =
   Inr [\<lparr>columns = [''A'', ''B''], rows = [[CInt 1, CInt 2], [CInt 3, CInt 4]]\<rparr>,
        \<lparr>columns = [''C'', ''D''], rows = [[CInt 5, CInt 6]]\<rparr>]"
  by (simp add: merge_fragmented_tables_def merge_step_def df_empty_def py_index_def
      pd_concat_def)

text \<open>
  Claim C3. When a fragment whose first label begins with \<^verbatim>\<open>Unnamed\<close> is merged into
  the open accumulator, the labels of the result should be those of the accumulator and
  the rows of the fragment should follow the rows of the accumulator. The concatenation
  joins the labels instead: for an accumulator with the labels \<^verbatim>\<open>Sample\<close>,
  \<^verbatim>\<open>ng/ul\<close> and a fragment with the labels \<^verbatim>\<open>Unnamed: 0\<close>, \<^verbatim>\<open>Unnamed: 1\<close> the
  result has all four labels, and the row of the fragment stands under its own labels,
  with missing values under those of the accumulator.
\<close>

theorem continuation_adds_fragment_labels:
  "merge_fragmented_tables
     [\<lparr>columns = [''Sample'', ''ng/ul''], rows = [[CStr ''S1'', CStr ''4,1'']]\<rparr>,
      \<lparr>columns = [''Unnamed: 0'', ''Unnamed: 1''], rows = [[CStr ''S2'', CStr ''5,2'']]\<rparr>] =
   Inr [\<lparr>columns = [''Sample'', ''ng/ul'', ''Unnamed: 0'', ''Unnamed: 1''],
         rows = [[CStr ''S1'', CStr ''4,1'', CFloat NaN, CFloat NaN],
                 [CFloat NaN, CFloat NaN, CStr ''S2'', CStr ''5,2'']]\<rparr>]"
proof -
  let ?a = "\<lparr>columns = [''Sample'', ''ng/ul''], rows = [[CStr ''S1'', CStr ''4,1'']]\<rparr>"
  let ?b = "\<lparr>columns = [''Unnamed: 0'', ''Unnamed: 1''], rows = [[CStr ''S2'', CStr ''5,2'']]\<rparr>"
  have flags: "\<not> float_column ?a ?b ''Sample''" "\<not> float_column ?a ?b ''ng/ul''"
    "\<not> float_column ?a ?b ''Unnamed: 0''" "\<not> float_column ?a ?b ''Unnamed: 1''"
    by (simp_all add: float_column_def piece_def row_get_def infer_numeric_def is_str_def)
  have c: "pd_concat ?a ?b =
           Inr \<lparr>columns = [''Sample'', ''ng/ul'', ''Unnamed: 0'', ''Unnamed: 1''],
                rows = [[CStr ''S1'', CStr ''4,1'', CFloat NaN, CFloat NaN],
                        [CFloat NaN, CFloat NaN, CStr ''S2'', CStr ''5,2'']]\<rparr>"
    by (simp add: pd_concat_def flags upcast_row_def reindex_row_def row_get_def missing_def)
  show ?thesis
    by (simp add: merge_fragmented_tables_def merge_step_def df_empty_def py_index_def c)
qed

text \<open>
  Claim C5, as stated: for every sequence of fragments, no table of the result is an empty
  fragment. This fails for a sequence of one empty fragment, which the guard on the length
  returns as it is.
\<close>

theorem single_empty_fragment_counterexample:
  "merge_fragmented_tables [\<lparr>columns = [''A''], rows = []\<rparr>] =
     Inr [\<lparr>columns = [''A''], rows = []\<rparr>] \<and>
   df_empty \<lparr>columns = [''A''], rows = []\<rparr>"
  by (simp add: merge_fragmented_tables_def df_empty_def)

text \<open>
  Claim C5, amended. For a sequence of two fragments or more, no table of the result is
  empty; an iteration on an empty fragment leaves the state as it is and does not raise;
  and an empty fragment anywhere in the sequence is invisible: the result is that for the
  sequence without it (which again has two fragments or more). A sequence of at most one
  fragment is returned as it is, also when its fragment is empty.
\<close>

theorem empty_fragments_dropped:
  "(2 \<le> length tables \<longrightarrow>
      (\<forall>out. merge_fragmented_tables tables = Inr out \<longrightarrow> list_all (\<lambda>t. \<not> df_empty t) out)) \<and>
   (df_empty e \<longrightarrow> merge_step st e = Inr st) \<and>
   (df_empty e \<and> 2 \<le> length (xs @ ys) \<longrightarrow>
      merge_fragmented_tables (xs @ e # ys) = merge_fragmented_tables (xs @ ys)) \<and>
   (length short \<le> 1 \<longrightarrow> merge_fragmented_tables short = Inr short)"
proof (intro conjI allI impI)
  assume "length short \<le> 1"
  then show "merge_fragmented_tables short = Inr short"
    by (simp add: merge_fragmented_tables_def)
next
  fix out
  assume len: "2 \<le> length tables" and "merge_fragmented_tables tables = Inr out"
  from merge_long_result[OF this] obtain st' where
    st: "merge_loop ([], None) tables = Inr st'" "out = state_tables st'" by blast
  from merge_loop_nonempty[OF st(1)] st(2)
  show "list_all (\<lambda>t. \<not> df_empty t) out" by simp
next
  assume "df_empty e"
  then show "merge_step st e = Inr st" by (rule merge_step_empty)
next
  assume a: "df_empty e \<and> 2 \<le> length (xs @ ys)"
  then have "filter (\<lambda>t. \<not> df_empty t) (xs @ e # ys) = filter (\<lambda>t. \<not> df_empty t) (xs @ ys)"
    by simp
  then have "merge_loop ([], None) (xs @ e # ys) = merge_loop ([], None) (xs @ ys)"
    using merge_loop_filter[of "([], None)" "xs @ e # ys"]
      merge_loop_filter[of "([], None)" "xs @ ys"] by simp
  moreover from a have "2 \<le> length (xs @ e # ys)" by simp
  ultimately show "merge_fragmented_tables (xs @ e # ys) = merge_fragmented_tables (xs @ ys)"
    using a by (simp only: merge_long)
qed

theorem empty_fragments_dropped_witness:
  "merge_fragmented_tables
     [\<lparr>columns = [''A'', ''B''], rows = [[CInt 1, CInt 2]]\<rparr>,
      \<lparr>columns = [''X''], rows = []\<rparr>,
      \<lparr>columns = [''A'', ''B''], rows = [[CInt 3, CInt 4]]\<rparr>] =
   merge_fragmented_tables
     [\<lparr>columns = [''A'', ''B''], rows = [[CInt 1, CInt 2]]\<rparr>,
      \<lparr>columns = [''A'', ''B''], rows = [[CInt 3, CInt 4]]\<rparr>] \<and>
   merge_step ([], Some \<lparr>columns = [''A'', ''B''], rows = [[CInt 1, CInt 2]]\<rparr>)
     \<lparr>columns = [''X''], rows = []\<rparr> =
   Inr ([], Some \<lparr>columns = [''A'', ''B''], rows = [[CInt 1, CInt 2]]\<rparr>) \<and>
   list_all (\<lambda>t. \<not> df_empty t)
     [\<lparr>columns = [''A'', ''B''], rows = [[CInt 1, CInt 2], [CInt 3, CInt 4]]\<rparr>] \<and>
   merge_fragmented_tables [\<lparr>columns = [''X''], rows = []\<rparr>] =
     Inr [\<lparr>columns = [''X''], rows = []\<rparr>]"
proof -
  let ?a = "\<lparr>columns = [''A'', ''B''], rows = [[CInt 1, CInt 2]]\<rparr>"
  let ?e = "\<lparr>columns = [''X''], rows = []\<rparr>"
  let ?b = "\<lparr>columns = [''A'', ''B''], rows = [[CInt 3, CInt 4]]\<rparr>"
  let ?r = "\<lparr>columns = [''A'', ''B''], rows = [[CInt 1, CInt 2], [CInt 3, CInt 4]]\<rparr>"
  have e: "df_empty ?e" by (simp add: df_empty_def)
  have len: "2 \<le> length [?a, ?e, ?b]" "2 \<le> length ([?a] @ [?b])" "length [?e] \<le> 1"
    by simp_all
  have m: "merge_fragmented_tables [?a, ?e, ?b] = Inr [?r]"
    by (simp add: merge_fragmented_tables_def merge_step_def df_empty_def pd_concat_def)
  from empty_fragments_dropped[of "[?a, ?e, ?b]" ?e "([], Some ?a)" "[?a]" "[?b]" "[?e]"] e len m
  show ?thesis by simp
qed



text \<open>
  Claim C10. For a sequence of two fragments or more, the rows of the tables returned are
  as many as the rows of the fragments that are not empty; and the call does return
  whenever no fragment repeats a label.
\<close>

theorem reconcile_conserves_rows:
  assumes "2 \<le> length tables"
  shows "(\<forall>out. merge_fragmented_tables tables = Inr out \<longrightarrow>
            total_rows out = total_rows (filter (\<lambda>t. \<not> df_empty t) tables)) \<and>
         (list_all (\<lambda>t. distinct (columns t)) tables \<longrightarrow>
            (\<exists>out. merge_fragmented_tables tables = Inr out))"
proof (intro conjI allI impI)
  fix out
  assume "merge_fragmented_tables tables = Inr out"
  from merge_long_result[OF assms this] obtain st where
    st: "merge_loop ([], None) tables = Inr st" "out = state_tables st" by blast
  from merge_loop_rows[OF st(1)] st(2)
  show "total_rows out = total_rows (filter (\<lambda>t. \<not> df_empty t) tables)" by simp
next
  assume "list_all (\<lambda>t. distinct (columns t)) tables"
  from merge_loop_distinct[OF this, of "([], None)"] obtain st' where
    "merge_loop ([], None) tables = Inr st'" by auto
  then show "\<exists>out. merge_fragmented_tables tables = Inr out"
    using assms by (simp add: merge_long)
qed

theorem reconcile_conserves_rows_witness:
  "list_all (\<lambda>t. distinct (columns t))
     [\<lparr>columns = [''A'', ''B''], rows = [[CInt 1, CInt 2]]\<rparr>,
      \<lparr>columns = [''A'', ''B''], rows = []\<rparr>,
      \<lparr>columns = [''A'', ''B''], rows = [[CInt 3, CInt 4]]\<rparr>,
      \<lparr>columns = [''C'', ''D''], rows = [[CInt 5, CInt 6]]\<rparr>] \<and>
   (\<exists>out. merge_fragmented_tables
     [\<lparr>columns = [''A'', ''B''], rows = [[CInt 1, CInt 2]]\<rparr>,
      \<lparr>columns = [''A'', ''B''], rows = []\<rparr>,
      \<lparr>columns = [''A'', ''B''], rows = [[CInt 3, CInt 4]]\<rparr>,
      \<lparr>columns = [''C'', ''D''], rows = [[CInt 5, CInt 6]]\<rparr>] = Inr out) \<and>
   total_rows
     [\<lparr>columns = [''A'', ''B''], rows = [[CInt 1, CInt 2], [CInt 3, CInt 4]]\<rparr>,
      \<lparr>columns = [''C'', ''D''], rows = [[CInt 5, CInt 6]]\<rparr>] =
   total_rows (filter (\<lambda>t. \<not> df_empty t)
     [\<lparr>columns = [''A'', ''B''], rows = [[CInt 1, CInt 2]]\<rparr>,
      \<lparr>columns = [''A'', ''B''], rows = []\<rparr>,
      \<lparr>columns = [''A'', ''B''], rows = [[CInt 3, CInt 4]]\<rparr>,
      \<lparr>columns = [''C'', ''D''], rows = [[CInt 5, CInt 6]]\<rparr>])"
proof -
  let ?ts = "[\<lparr>columns = [''A'', ''B''], rows = [[CInt 1, CInt 2]]\<rparr>,
      \<lparr>columns = [''A'', ''B''], rows = []\<rparr>,
      \<lparr>columns = [''A'', ''B''], rows = [[CInt 3, CInt 4]]\<rparr>,
      \<lparr>columns = [''C'', ''D''], rows = [[CInt 5, CInt 6]]\<rparr>]"
  have len: "2 \<le> length ?ts" by simp
  have d: "list_all (\<lambda>t. distinct (columns t)) ?ts" by simp
  from reconcile_conserves_rows[OF len] d merge_three_fragments
  show ?thesis by blast
qed

section \<open>The summary column resolver\<close>

text \<open>The loop finds the first label that contains a variant as a substring.\<close>

lemma find_col_find:
  "find_col variants cols = List.find (\<lambda>c. \<exists>v\<in>set variants. sublist v c) cols"
  by (induction cols) (auto simp: list_ex_iff str_contains_sublist)

lemma find_col_nonempty:
  "find_col variants cols = Some c \<Longrightarrow> [] \<notin> set variants \<Longrightarrow> c \<noteq> []"
  by (induction cols) (auto simp: list_ex_iff split: if_splits)

lemma variants_nonempty:
  "[] \<notin> set sample_cols" "[] \<notin> set ngul_cols" "[] \<notin> set ratio_cols"
  by (simp_all add: sample_cols_def ngul_cols_def ratio_cols_def)

lemma index_filter_length:
  "length (filter (\<lambda>i. cols ! i = c) [0..<length cols]) = length (filter (\<lambda>h. h = c) cols)"
proof -
  have "map (\<lambda>i. cols ! i) (filter (\<lambda>i. cols ! i = c) [0..<length cols]) =
        filter (\<lambda>h. h = c) (map (\<lambda>i. cols ! i) [0..<length cols])"
    by (simp add: filter_map comp_def)
  also have "map (\<lambda>i. cols ! i) [0..<length cols] = cols"
    by (rule map_nth)
  finally show ?thesis
    by (metis length_map)
qed

lemma get_column_once:
  assumes "length (filter (\<lambda>h. h = c) (columns table)) = 1"
  shows "\<exists>vals. get_column table c = Inr vals \<and> length vals = length (rows table)"
proof -
  from assms have "length (filter (\<lambda>i. columns table ! i = c) [0..<length (columns table)]) = 1"
    by (simp add: index_filter_length)
  then obtain i where "filter (\<lambda>i. columns table ! i = c) [0..<length (columns table)] = [i]"
    by (auto simp: length_Suc_conv)
  then show ?thesis
    by (simp add: get_column_def)
qed

text \<open>
  The column that a field takes from the table: when the label found for the field occurs
  once, it stands at the least position whose label contains a variant, and the cells
  taken are those of that position.
\<close>

lemma first_match_column:
  assumes "find_col variants (columns table) = Some c"
    and "length (filter (\<lambda>h. h = c) (columns table)) = 1"
  shows "\<exists>i<length (columns table).
           columns table ! i = c \<and> (\<exists>v\<in>set variants. sublist v c) \<and>
           (\<forall>j<i. \<not> (\<exists>v\<in>set variants. sublist v (columns table ! j))) \<and>
           get_column table c = Inr (map (\<lambda>r. if i < length r then r ! i else missing) (rows table))"
proof -
  from assms(1) obtain i where i: "i < length (columns table)" "columns table ! i = c"
    "\<exists>v\<in>set variants. sublist v c"
    "\<forall>j<i. \<not> (\<exists>v\<in>set variants. sublist v (columns table ! j))"
    unfolding find_col_find find_Some_iff by auto
  from assms(2) have "length (filter (\<lambda>i. columns table ! i = c) [0..<length (columns table)]) = 1"
    by (simp add: index_filter_length)
  then obtain k where k: "filter (\<lambda>i. columns table ! i = c) [0..<length (columns table)] = [k]"
    by (auto simp: length_Suc_conv)
  from i(1,2) have "i \<in> set (filter (\<lambda>i. columns table ! i = c) [0..<length (columns table)])"
    by simp
  with k have "k = i" by simp
  with k have "get_column table c =
               Inr (map (\<lambda>r. if i < length r then r ! i else missing) (rows table))"
    by (simp add: get_column_def)
  with i show ?thesis by blast
qed

lemma add_field_columns:
  "add_field table col key e = Inr e' \<Longrightarrow>
   columns e' = columns e @ (case col of None \<Rightarrow> [] | Some c \<Rightarrow> if c = [] then [] else [key])"
  by (auto simp: add_field_def set_new_column_def raise_bind_def
      split: option.splits if_splits sum.splits)

lemma add_field_shaped:
  assumes "resolved_once table variants" "[] \<notin> set variants" "shaped table e"
  shows "\<exists>e'. add_field table (find_col variants (columns table)) key e = Inr e' \<and>
           shaped table e' \<and> columns e' = columns e @ field_label table variants key"
proof (cases "find_col variants (columns table)")
  case None
  with assms(3) show ?thesis
    by (simp add: add_field_def field_label_def)
next
  case (Some c)
  with assms(2) have c: "c \<noteq> []"
    by (auto dest: find_col_nonempty)
  from Some assms(1) have "length (filter (\<lambda>h. h = c) (columns table)) = 1"
    by (simp add: resolved_once_def)
  from get_column_once[OF this] obtain vals where
    v: "get_column table c = Inr vals" "length vals = length (rows table)" by blast
  have "shaped table (set_new_column e key vals)"
    using assms(3) v(2) by (auto simp: shaped_def set_new_column_def split: if_splits)
  then show ?thesis
    using Some c v by (simp add: add_field_def field_label_def set_new_column_def)
qed

lemma field_labels_props:
  "''Source File'' \<notin> set (field_labels table)" "distinct (field_labels table)"
  by (auto simp: field_labels_def field_label_def split: option.splits)

lemma field_labels_Nil:
  "field_labels table = [] \<longleftrightarrow>
   find_col sample_cols (columns table) = None \<and> find_col ngul_cols (columns table) = None \<and>
   find_col ratio_cols (columns table) = None"
  by (auto simp: field_labels_def field_label_def split: option.splits)

lemma fix_cell_total: "\<exists>y. fix_cell x = Inr y"
  using convert_str_cases by (cases x) (auto simp: fix_cell_def)

lemma map_exn_total:
  assumes "\<And>x. \<exists>y. f x = Inr y"
  shows "\<exists>ys. map_exn f xs = Inr ys \<and> length ys = length xs"
proof (induction xs)
  case Nil
  then show ?case by simp
next
  case (Cons x xs)
  from assms obtain y where "f x = Inr y" by blast
  with Cons show ?case by auto
qed

lemma fix_column_total: "\<exists>ys. fix_column infer_string cells = Inr ys"
proof -
  from map_exn_total[of fix_cell cells] fix_cell_total
  obtain rs where "map_exn fix_cell cells = Inr rs" by blast
  then show ?thesis
    by (simp add: fix_column_def)
qed

lemma fix_swedish_numbers_shape:
  "fix_swedish_numbers infer_string df = Inr df' \<Longrightarrow>
   columns df' = columns df \<and> length (rows df') = length (rows df)"
  by (auto simp: fix_swedish_numbers_def raise_bind_def split: if_splits sum.splits)

lemma fix_swedish_numbers_total:
  assumes "distinct (columns df)"
  shows "\<exists>df'. fix_swedish_numbers infer_string df = Inr df'"
proof -
  from map_exn_total[of "\<lambda>j. fix_column infer_string (column_cells df j)"
      "[0..<length (columns df)]"] fix_column_total
  obtain cols where
    "map_exn (\<lambda>j. fix_column infer_string (column_cells df j)) [0..<length (columns df)] = Inr cols"
    by blast
  with assms show ?thesis
    by (simp add: fix_swedish_numbers_def)
qed

text \<open>A summary that is returned has the source label and the labels of the resolved
  fields, and no others.\<close>

lemma extract_columns:
  assumes "extract_summary_data infer_string table src = Inr (Some r)"
  shows "columns r = ''Source File'' # field_labels table"
proof -
  let ?e0 = "\<lparr>columns = [], rows = []\<rparr>"
  from assms obtain e1 where
    e1: "add_field table (find_col sample_cols (columns table)) ''Sample'' ?e0 = Inr e1"
    by (cases "add_field table (find_col sample_cols (columns table)) ''Sample'' ?e0")
      (auto simp: extract_summary_data_def Let_def)
  from assms e1 obtain e2 where
    e2: "add_field table (find_col ngul_cols (columns table)) ''ng/ul'' e1 = Inr e2"
    by (cases "add_field table (find_col ngul_cols (columns table)) ''ng/ul'' e1")
      (auto simp: extract_summary_data_def Let_def)
  from assms e1 e2 obtain e3 where
    e3: "add_field table (find_col ratio_cols (columns table)) ''260/280'' e2 = Inr e3"
    by (cases "add_field table (find_col ratio_cols (columns table)) ''260/280'' e2")
      (auto simp: extract_summary_data_def Let_def)
  have l: "columns e3 = field_labels table"
    using add_field_columns[OF e1] add_field_columns[OF e2] add_field_columns[OF e3]
      variants_nonempty
    by (auto simp: field_labels_def field_label_def split: option.splits dest: find_col_nonempty)
  from assms e1 e2 e3 have ne: "\<not> df_empty e3"
    by (auto simp: extract_summary_data_def Let_def split: if_splits)
  from assms e1 e2 e3 ne obtain e4 where
    e4: "df_insert_first e3 ''Source File'' (CStr src) = Inr e4" and
    f: "fix_swedish_numbers infer_string e4 = Inr r"
    by (cases "df_insert_first e3 ''Source File'' (CStr src)")
      (auto simp: extract_summary_data_def Let_def raise_bind_def split: if_splits sum.splits)
  from e4 l have "columns e4 = ''Source File'' # field_labels table"
    by (auto simp: df_insert_first_def split: if_splits)
  with fix_swedish_numbers_shape[OF f] show ?thesis by simp
qed

lemma extract_unresolved:
  assumes "find_col sample_cols (columns table) = None"
    "find_col ngul_cols (columns table) = None"
    "find_col ratio_cols (columns table) = None"
  shows "extract_summary_data infer_string table src = Inr None"
  using assms by (simp add: extract_summary_data_def add_field_def df_empty_def)

lemma extract_resolved:
  assumes "rows table \<noteq> []"
    and "resolved_once table sample_cols" "resolved_once table ngul_cols"
      "resolved_once table ratio_cols"
    and "field_labels table \<noteq> []"
  shows "\<exists>r. extract_summary_data infer_string table src = Inr (Some r)"
proof -
  let ?e0 = "\<lparr>columns = [], rows = []\<rparr>"
  have s0: "shaped table ?e0" by (simp add: shaped_def)
  from add_field_shaped[OF assms(2) variants_nonempty(1) s0, of "''Sample''"] obtain e1 where
    e1: "add_field table (find_col sample_cols (columns table)) ''Sample'' ?e0 = Inr e1"
      "shaped table e1" "columns e1 = field_label table sample_cols ''Sample''"
    by auto
  from add_field_shaped[OF assms(3) variants_nonempty(2) e1(2), of "''ng/ul''"] obtain e2 where
    e2: "add_field table (find_col ngul_cols (columns table)) ''ng/ul'' e1 = Inr e2"
      "shaped table e2" "columns e2 = columns e1 @ field_label table ngul_cols ''ng/ul''"
    by auto
  from add_field_shaped[OF assms(4) variants_nonempty(3) e2(2), of "''260/280''"] obtain e3 where
    e3: "add_field table (find_col ratio_cols (columns table)) ''260/280'' e2 = Inr e3"
      "shaped table e3" "columns e3 = columns e2 @ field_label table ratio_cols ''260/280''"
    by auto
  have l: "columns e3 = field_labels table"
    using e1(3) e2(3) e3(3) by (simp add: field_labels_def)
  with assms(1,5) e3(2) have ne: "\<not> df_empty e3" "rows e3 \<noteq> []"
    by (auto simp: shaped_def df_empty_def)
  let ?e4 = "\<lparr>columns = ''Source File'' # columns e3, rows = map (\<lambda>r. CStr src # r) (rows e3)\<rparr>"
  have i: "df_insert_first e3 ''Source File'' (CStr src) = Inr ?e4"
    using l field_labels_props(1)[of table] by (simp add: df_insert_first_def)
  have "distinct (columns ?e4)"
    using l field_labels_props[of table] by simp
  from fix_swedish_numbers_total[OF this] obtain r where
    r: "fix_swedish_numbers infer_string ?e4 = Inr r" by blast
  from fix_swedish_numbers_shape[OF r] have
    "columns r = columns ?e4" "length (rows r) = length (rows ?e4)" by simp_all
  with ne have "\<not> df_empty r"
    by (cases "rows r") (simp_all add: df_empty_def)
  with e1(1) e2(1) e3(1) ne(1) i r show ?thesis
    by (simp add: extract_summary_data_def)
qed

text \<open>The example of the specification, evaluated: the frame \<^verbatim>\<open>extracted\<close> before the
  numbers are fixed, and the three columns fixed without and with string inference.\<close>

lemma find_col_example:
  "find_col sample_cols [''Sample Name'', ''ng/uL'', ''Other''] = Some ''Sample Name''"
  "find_col ngul_cols [''Sample Name'', ''ng/uL'', ''Other''] = Some ''ng/uL''"
  "find_col ratio_cols [''Sample Name'', ''ng/uL'', ''Other''] = None"
  by (simp_all add: sample_cols_def ngul_cols_def ratio_cols_def)

lemma fix_cell_example:
  "fix_cell (CStr ''doc1'') = Inr (CStr ''doc1'')"
  "fix_cell (CStr ''S1'') = Inr (CStr ''S1'')"
  "fix_cell (CStr ''4,141'') = Inr (CFloat (Finite (4141 / 1000)))"
  by (simp_all add: fix_cell_def convert_4_141 convert_no_comma)

lemma fix_column_example_object:
  "fix_column False [CStr ''doc1''] = Inr [CStr ''doc1'']"
  "fix_column False [CStr ''S1''] = Inr [CStr ''S1'']"
  "fix_column False [CStr ''4,141''] = Inr [CFloat (Finite (4141 / 1000))]"
  by (simp_all add: fix_column_def infer_dtype_def infer_numeric_def is_str_def is_none_def
      is_int_def apply_infer_def to_float_def fix_cell_example)

lemma fix_column_example_str:
  "fix_column True [CStr ''doc1''] = Inr [CStr ''doc1'']"
  "fix_column True [CStr ''S1''] = Inr [CStr ''S1'']"
  "fix_column True [CStr ''4,141''] = Inr [CStr ''4,141'']"
  by (simp_all add: fix_column_def infer_dtype_def infer_numeric_def is_str_def)

text \<open>Without string inference a column that holds a string, an integer and None is
  processed, and its results are inferred to be floats.\<close>

lemma fix_column_infers_floats:
  "fix_column False [CStr ''4,141'', CInt 5, CNone] =
   Inr [CFloat (Finite (4141 / 1000)), CFloat (Finite 5), CFloat NaN]"
  by (simp add: fix_column_def infer_dtype_def infer_numeric_def is_str_def is_none_def
      is_int_def apply_infer_def to_float_def fix_cell_def convert_4_141)

lemma extract_example_columns:
  "column_cells \<lparr>columns = [''Source File'', ''Sample'', ''ng/ul''],
                 rows = [[CStr ''doc1'', CStr ''S1'', CStr ''4,141'']]\<rparr> 0 = [CStr ''doc1'']"
  "column_cells \<lparr>columns = [''Source File'', ''Sample'', ''ng/ul''],
                 rows = [[CStr ''doc1'', CStr ''S1'', CStr ''4,141'']]\<rparr> (Suc 0) = [CStr ''S1'']"
  "column_cells \<lparr>columns = [''Source File'', ''Sample'', ''ng/ul''],
                 rows = [[CStr ''doc1'', CStr ''S1'', CStr ''4,141'']]\<rparr> (Suc (Suc 0)) =
     [CStr ''4,141'']"
  by (simp_all add: column_cells_def)

lemma extract_example:
  "extract_summary_data False
     \<lparr>columns = [''Sample Name'', ''ng/uL'', ''Other''],
      rows = [[CStr ''S1'', CStr ''4,141'', CStr ''x'']]\<rparr> ''doc1'' =
   Inr (Some \<lparr>columns = [''Source File'', ''Sample'', ''ng/ul''],
              rows = [[CStr ''doc1'', CStr ''S1'', CFloat (Finite (4141 / 1000))]]\<rparr>)"
  by (simp add: extract_summary_data_def find_col_example add_field_def get_column_def
      set_new_column_def df_empty_def df_insert_first_def fix_swedish_numbers_def
      extract_example_columns fix_column_example_object del: find_col.simps)

text \<open>
  Claim C7. For the table with the labels \<^verbatim>\<open>Sample Name\<close>, \<^verbatim>\<open>ng/uL\<close>,
  \<^verbatim>\<open>Other\<close> and the row \<^verbatim>\<open>S1\<close>, \<^verbatim>\<open>4,141\<close>, \<^verbatim>\<open>x\<close>, and the source label
  \<^verbatim>\<open>doc1\<close>, the resolver should yield the concentration as the number 4.141. With
  the string inference of pandas 3 the columns of the summary have the element type
  \<^verbatim>\<open>str\<close>, the test for \<^verbatim>\<open>object\<close> skips them, and the concentration stays the
  text \<^verbatim>\<open>4,141\<close>.
\<close>

theorem resolver_example_keeps_text:
  "extract_summary_data True
     \<lparr>columns = [''Sample Name'', ''ng/uL'', ''Other''],
      rows = [[CStr ''S1'', CStr ''4,141'', CStr ''x'']]\<rparr> ''doc1'' =
   Inr (Some \<lparr>columns = [''Source File'', ''Sample'', ''ng/ul''],
              rows = [[CStr ''doc1'', CStr ''S1'', CStr ''4,141'']]\<rparr>)"
  by (simp add: extract_summary_data_def find_col_example add_field_def get_column_def
      set_new_column_def df_empty_def df_insert_first_def fix_swedish_numbers_def
      extract_example_columns fix_column_example_str del: find_col.simps)

text \<open>
  Claim C8, as stated: for every table a record is yielded if and only if one of the three
  fields resolved. This fails for a table without rows: the field resolves, the extracted
  frame is empty, and nothing is yielded.
\<close>

theorem resolved_without_rows_counterexample:
  "find_col sample_cols (columns \<lparr>columns = [''Sample''], rows = []\<rparr>) = Some ''Sample'' \<and>
   extract_summary_data False \<lparr>columns = [''Sample''], rows = []\<rparr> ''doc1'' = Inr None \<and>
   extract_summary_data True \<lparr>columns = [''Sample''], rows = []\<rparr> ''doc1'' = Inr None"
  by (simp add: extract_summary_data_def sample_cols_def ngul_cols_def ratio_cols_def
      add_field_def get_column_def set_new_column_def df_empty_def)

text \<open>
  Claim C8, amended. For every table and source label: when no label matches any variant
  list, nothing is yielded and nothing is raised; when the table has at least one row and
  each resolved label occurs once among its labels, a record is yielded if and only if one
  of the three fields resolved; and a record that is yielded has the source label and the
  labels of the resolved fields only, so that a field that did not resolve is absent. This
  holds with and without the string inference of pandas.
\<close>

theorem resolver_record_iff_resolved:
  "(find_col sample_cols (columns table) = None \<and> find_col ngul_cols (columns table) = None \<and>
    find_col ratio_cols (columns table) = None \<longrightarrow>
      extract_summary_data infer_string table src = Inr None) \<and>
   (rows table \<noteq> [] \<and> resolved_once table sample_cols \<and> resolved_once table ngul_cols \<and>
    resolved_once table ratio_cols \<longrightarrow>
      ((\<exists>r. extract_summary_data infer_string table src = Inr (Some r)) \<longleftrightarrow>
       (find_col sample_cols (columns table) \<noteq> None \<or> find_col ngul_cols (columns table) \<noteq> None \<or>
        find_col ratio_cols (columns table) \<noteq> None))) \<and>
   (\<forall>r. extract_summary_data infer_string table src = Inr (Some r) \<longrightarrow>
      columns r = ''Source File'' # field_labels table)"
proof (intro conjI impI allI)
  assume "find_col sample_cols (columns table) = None \<and> find_col ngul_cols (columns table) = None \<and>
    find_col ratio_cols (columns table) = None"
  then show "extract_summary_data infer_string table src = Inr None"
    by (simp add: extract_unresolved)
next
  assume a: "rows table \<noteq> [] \<and> resolved_once table sample_cols \<and> resolved_once table ngul_cols \<and>
    resolved_once table ratio_cols"
  show "(\<exists>r. extract_summary_data infer_string table src = Inr (Some r)) \<longleftrightarrow>
       (find_col sample_cols (columns table) \<noteq> None \<or> find_col ngul_cols (columns table) \<noteq> None \<or>
        find_col ratio_cols (columns table) \<noteq> None)"
  proof
    assume "\<exists>r. extract_summary_data infer_string table src = Inr (Some r)"
    then obtain r where r: "extract_summary_data infer_string table src = Inr (Some r)" ..
    show "find_col sample_cols (columns table) \<noteq> None \<or>
        find_col ngul_cols (columns table) \<noteq> None \<or> find_col ratio_cols (columns table) \<noteq> None"
    proof (rule ccontr)
      assume "\<not> ?thesis"
      then have "extract_summary_data infer_string table src = Inr None"
        by (simp add: extract_unresolved)
      with r show False by simp
    qed
  next
    assume "find_col sample_cols (columns table) \<noteq> None \<or>
        find_col ngul_cols (columns table) \<noteq> None \<or> find_col ratio_cols (columns table) \<noteq> None"
    then have "field_labels table \<noteq> []"
      by (simp add: field_labels_Nil)
    with a show "\<exists>r. extract_summary_data infer_string table src = Inr (Some r)"
      by (simp add: extract_resolved)
  qed
next
  fix r
  assume "extract_summary_data infer_string table src = Inr (Some r)"
  then show "columns r = ''Source File'' # field_labels table"
    by (rule extract_columns)
qed

theorem resolver_record_iff_resolved_witness:
  "extract_summary_data False \<lparr>columns = [''Well'', ''Other''], rows = [[CStr ''A1'', CStr ''x'']]\<rparr>
     ''doc1'' = Inr None \<and>
   (\<exists>r. extract_summary_data False
          \<lparr>columns = [''Sample Name'', ''ng/uL'', ''Other''],
           rows = [[CStr ''S1'', CStr ''4,141'', CStr ''x'']]\<rparr> ''doc1'' = Inr (Some r)) \<and>
   [''Source File'', ''Sample'', ''ng/ul''] =
   ''Source File'' # field_labels \<lparr>columns = [''Sample Name'', ''ng/uL'', ''Other''],
           rows = [[CStr ''S1'', CStr ''4,141'', CStr ''x'']]\<rparr>"
proof -
  let ?u = "\<lparr>columns = [''Well'', ''Other''], rows = [[CStr ''A1'', CStr ''x'']]\<rparr>"
  let ?t = "\<lparr>columns = [''Sample Name'', ''ng/uL'', ''Other''],
           rows = [[CStr ''S1'', CStr ''4,141'', CStr ''x'']]\<rparr>"
  have u: "find_col sample_cols (columns ?u) = None \<and> find_col ngul_cols (columns ?u) = None \<and>
    find_col ratio_cols (columns ?u) = None"
    by (simp add: sample_cols_def ngul_cols_def ratio_cols_def)
  have t: "rows ?t \<noteq> [] \<and> resolved_once ?t sample_cols \<and> resolved_once ?t ngul_cols \<and>
    resolved_once ?t ratio_cols"
    by (simp add: resolved_once_def find_col_example del: find_col.simps)
  have r: "find_col sample_cols (columns ?t) \<noteq> None"
    by (simp add: find_col_example del: find_col.simps)
  from resolver_record_iff_resolved[of ?u False "''doc1''"] u
  have 1: "extract_summary_data False ?u ''doc1'' = Inr None" by blast
  from resolver_record_iff_resolved[of ?t False "''doc1''"] t r
  have 2: "\<exists>r. extract_summary_data False ?t ''doc1'' = Inr (Some r)" by blast
  then obtain x where x: "extract_summary_data False ?t ''doc1'' = Inr (Some x)" ..
  from resolver_record_iff_resolved[of ?t False "''doc1''"] x
  have "columns x = ''Source File'' # field_labels ?t" by blast
  moreover from x have "columns x = [''Source File'', ''Sample'', ''ng/ul'']"
    by (auto simp: extract_example)
  ultimately show ?thesis using 1 2 by simp
qed

end
